theory Spec2Isabelle
  imports Main "HOL-Library.AList"
begin

section \<open>The HipChat execution module (salt/modules/hipchat.py)\<close>

text \<open>
  The module builds one HTTP request per call, hands it to the \<open>requests\<close> library and
  interprets the answer. The model follows the Python text line by line. Python values are
  a datatype, exceptions are the left summand of a sum type, and everything the module
  reaches outside itself (the \<open>__salt__\<close> global, \<open>urljoin\<close>, \<open>str\<close>, the HTTP transport)
  is a field of an environment record.
\<close>

subsection \<open>Python values\<close>

datatype pyval =
    PNone
  | PBool bool
  | PInt int
  | PStr string
  | PList "pyval list"
  | PDict "(string \<times> pyval) list"

type_synonym pydict = "(string \<times> pyval) list"

text \<open>Truth value testing, as \<open>if x:\<close> and \<open>not x\<close> do it.\<close>

fun truthy :: "pyval \<Rightarrow> bool" where
  "truthy PNone = False"
| "truthy (PBool b) = b"
| "truthy (PInt i) = (i \<noteq> 0)"
| "truthy (PStr s) = (s \<noteq> [])"
| "truthy (PList xs) = (xs \<noteq> [])"
| "truthy (PDict d) = (d \<noteq> [])"

text \<open>
  The exceptions that can occur. \<open>ConnectionError\<close> is \<open>requests.ConnectionError\<close> with its
  subclasses, \<open>RequestException\<close> any other exception of the transport (a read timeout, too
  many redirects). \<open>ValueError\<close> is what \<open>Response.json()\<close> raises on a body that is not
  JSON.
\<close>

datatype exn =
    NameError
  | KeyError
  | AttributeError
  | TypeError
  | ValueError
  | ConnectionError
  | RequestException

text \<open>\<open>d.get(k)\<close> and \<open>d[k] = v\<close> on a dictionary with string keys.\<close>

definition dict_get :: "pydict \<Rightarrow> string \<Rightarrow> pyval" where
  "dict_get d k = (case map_of d k of None \<Rightarrow> PNone | Some v \<Rightarrow> v)"

definition dict_set :: "pydict \<Rightarrow> string \<Rightarrow> pyval \<Rightarrow> pydict" where
  "dict_set d k v = AList.update k v d"

text \<open>
  \<open>x.get(key)\<close> on an arbitrary value: only a dictionary has a \<open>get\<close>. The key is
  \<open>None\<close> for Python's \<open>None\<close>, which is never a key of a dictionary with string keys.
\<close>

fun py_get :: "pyval \<Rightarrow> string option \<Rightarrow> exn + pyval" where
  "py_get (PDict d) (Some k) = Inr (dict_get d k)"
| "py_get (PDict d) None = Inr PNone"
| "py_get _ _ = Inl AttributeError"

text \<open>\<open>x['name']\<close>, a string subscript, on an arbitrary value.\<close>

fun py_subscript :: "pyval \<Rightarrow> string \<Rightarrow> exn + pyval" where
  "py_subscript (PDict d) k = (case map_of d k of None \<Rightarrow> Inl KeyError | Some v \<Rightarrow> Inr v)"
| "py_subscript _ k = Inl TypeError"

subsection \<open>JSON documents\<close>

text \<open>
  \<open>json.dumps\<close> returns text; the model keeps the document that the text denotes, so that
  \<open>true\<close> and \<open>1\<close> stay apart and layout is left out.
\<close>

datatype json =
    JNull
  | JBool bool
  | JNumber int
  | JString string
  | JArray "json list"
  | JObject "(string \<times> json) list"

primrec json_dumps :: "pyval \<Rightarrow> json" where
  "json_dumps PNone = JNull"
| "json_dumps (PBool b) = JBool b"
| "json_dumps (PInt i) = JNumber i"
| "json_dumps (PStr s) = JString s"
| "json_dumps (PList xs) = JArray (map json_dumps xs)"
| "json_dumps (PDict d) = JObject (map (map_prod id json_dumps) d)"

subsection \<open>Requests, responses, the log\<close>

text \<open>
  The \<open>data\<close> argument of \<open>requests.request\<close> is the dictionary itself under v1 (the library
  form-encodes it) and the output of \<open>json.dumps\<close> under v2.
\<close>

datatype reqdata = FormFields pydict | JsonText json

record http_request =
  http_method :: string
  url :: string
  headers :: "(string \<times> string) list"
  params :: pydict
  data :: reqdata
  verify :: bool

text \<open>
  A response: its status code and what \<open>json()\<close> returns on it, \<open>None\<close> when the body is
  not valid JSON and \<open>json()\<close> raises \<open>ValueError\<close>.
\<close>

record http_response =
  status_code :: int
  json_value :: "pyval option"

datatype log_arg =
    Msg string
  | Exc exn
  | Val pyval
  | Body reqdata
  | Resp http_response

datatype log_entry = LogError log_arg | LogDebug log_arg

subsection \<open>The environment\<close>

text \<open>
  \<open>salt\<close> is the \<open>__salt__\<close> global: \<open>None\<close> when the name is not defined, else the
  dictionary of loaded functions, of which only \<open>config.option\<close> is called.
  \<open>url_join\<close> is \<open>urlparse.urljoin\<close> with its \<open>allow_fragments\<close> argument, which may
  raise; \<open>py_str\<close> is the builtin \<open>str\<close>, which on the values modelled here always
  returns; \<open>transport\<close> is the call of \<open>requests.request\<close>.
\<close>

record env =
  salt :: "(string \<rightharpoonup> (string \<Rightarrow> pyval)) option"
  url_join :: "string \<Rightarrow> string \<Rightarrow> bool \<Rightarrow> exn + string"
  py_str :: "pyval \<Rightarrow> string"
  transport :: "http_request \<Rightarrow> exn + http_response"

text \<open>
  What a call leaves behind: the value returned or the exception raised, the requests
  handed to the transport, the log, and the contents after the call of the mapping object
  that the caller passed as \<open>data\<close> (\<open>None\<close> when the caller passed none).
\<close>

record outcome =
  result :: "exn + pyval"
  sent :: "http_request list"
  logged :: "log_entry list"
  arg_data :: "pydict option"

subsection \<open>\<open>_query\<close>\<close>

text \<open>Lines 53 to 56: the room id that goes into the v2 message path.\<close>

definition room_id_of :: "env \<Rightarrow> pydict \<Rightarrow> string" where
  "room_id_of env d =
     (if truthy (dict_get d ''room_id'') then py_str env (dict_get d ''room_id'') else ''0'')"

text \<open>Lines 58 to 87: the table of operation descriptors.\<close>

record descriptor =
  request :: string
  response :: "string option"

definition hipchat_functions :: "string \<Rightarrow> (string \<times> (string \<times> descriptor) list) list" where
  "hipchat_functions room_id =
     [(''v1'',
        [(''rooms'', \<lparr>request = ''rooms/list'', response = Some ''rooms''\<rparr>),
         (''users'', \<lparr>request = ''users/list'', response = Some ''users''\<rparr>),
         (''message'', \<lparr>request = ''rooms/message'', response = Some ''status''\<rparr>)]),
      (''v2'',
        [(''rooms'', \<lparr>request = ''room'', response = Some ''items''\<rparr>),
         (''users'', \<lparr>request = ''user'', response = Some ''items''\<rparr>),
         (''message'', \<lparr>request = ''room/'' @ room_id @ ''/notification'', response = None\<rparr>)])]"

text \<open>
  \<open>hipchat_functions.get(api_version).get(function)\<close>: \<open>None\<close> stands for the
  \<open>AttributeError\<close> of calling \<open>get\<close> on \<open>None\<close>, which the callers below raise.
\<close>

definition lookup_descriptor :: "string \<Rightarrow> string \<Rightarrow> string \<Rightarrow> descriptor option" where
  "lookup_descriptor room_id api_version function =
     (case map_of (hipchat_functions room_id) api_version of
        None \<Rightarrow> None
      | Some fs \<Rightarrow> map_of fs function)"

text \<open>
  Lines 89 to 95, the body of the \<open>try\<close>: the credentials after the lookup in the
  configuration, or the exception the lookup raised.
\<close>

definition resolve :: "env \<Rightarrow> pyval \<Rightarrow> pyval \<Rightarrow> exn + (pyval \<times> pyval)" where
  "resolve env api_key api_version =
     (if \<not> truthy api_key \<or> \<not> truthy api_version then
        (case salt env of
           None \<Rightarrow> Inl NameError
         | Some funcs \<Rightarrow>
            (case funcs ''config.option'' of
               None \<Rightarrow> Inl KeyError
             | Some config_option \<Rightarrow>
                (let options = config_option ''hipchat'' in
                 case (if \<not> truthy api_key then py_get options (Some ''api_key'')
                       else Inr api_key) of
                   Inl e \<Rightarrow> Inl e
                 | Inr k \<Rightarrow>
                    (case (if \<not> truthy api_version then py_get options (Some ''api_version'')
                           else Inr api_version) of
                       Inl e \<Rightarrow> Inl e
                     | Inr v \<Rightarrow> Inr (k, v)))))
      else Inr (api_key, api_version))"

text \<open>
  Lines 100 to 121. The three ways on: an exception, the early \<open>return False\<close> of the
  \<open>else\<close> branch, or the request ready to be sent, with the contents of the \<open>data\<close>
  mapping at that point and the response key of the descriptor.
\<close>

datatype 'a flow = Raise exn | Return pyval | Go 'a

definition api_url :: string where
  "api_url = ''https://api.hipchat.com''"

definition build ::
  "env \<Rightarrow> string \<Rightarrow> pyval \<Rightarrow> pyval \<Rightarrow> string \<Rightarrow> pydict
     \<Rightarrow> (http_request \<times> pydict \<times> string option) flow" where
  "build env function api_key api_version meth d =
     (case api_version of
        PStr v \<Rightarrow>
         (case url_join env api_url (v @ ''/'') True of
            Inl e \<Rightarrow> Raise e
          | Inr base_url \<Rightarrow>
             (case lookup_descriptor (room_id_of env d) v function of
                None \<Rightarrow> Raise AttributeError
              | Some desc \<Rightarrow>
                 (case url_join env base_url (request desc) False of
                    Inl e \<Rightarrow> Raise e
                  | Inr u \<Rightarrow>
                     if v = ''v1'' then
                       (let d' = dict_set d ''notify''
                                   (PInt (if truthy (dict_get d ''notify'') then 1 else 0))
                        in Go (\<lparr>http_method = meth, url = u,
                                 headers = (if meth = ''POST''
                                            then [(''Content-Type'',
                                                   ''application/x-www-form-urlencoded'')]
                                            else []),
                                 params = [(''format'', PStr ''json''), (''auth_token'', api_key)],
                                 data = FormFields d', verify = True\<rparr>,
                               d', response desc))
                     else if v = ''v2'' then
                       Go (\<lparr>http_method = meth, url = u,
                             headers = [(''Authorization'', ''Bearer '' @ py_str env api_key)],
                             params = [],
                             data = JsonText (json_dumps (PDict d)), verify = True\<rparr>,
                           d, response desc)
                     else Return (PBool False))))
      | _ \<Rightarrow> Raise TypeError)"

text \<open>Lines 136 to 149: the value returned or the exception raised, and the log lines.\<close>

definition interpret_response ::
  "http_request \<Rightarrow> string option \<Rightarrow> http_response \<Rightarrow> (exn + pyval) \<times> log_entry list" where
  "interpret_response req key resp =
     (if status_code resp = 200 then
        (case json_value resp of
           None \<Rightarrow> (Inl ValueError, [])
         | Some body \<Rightarrow> (py_get body key, []))
      else if status_code resp = 204 then (Inr (PBool True), [])
      else
        (let dbg = [LogDebug (Msg (url req)), LogDebug (Val (PDict (params req))),
                    LogDebug (Body (data req)), LogDebug (Resp resp)]
         in case json_value resp of
              None \<Rightarrow> (Inl ValueError, dbg)
            | Some body \<Rightarrow>
               (case py_get body (Some ''error'') of
                  Inl e \<Rightarrow> (Inl e, dbg)
                | Inr err \<Rightarrow>
                   (Inr (PBool False),
                    dbg @ (if truthy err then [LogError (Val body)] else [])))))"

text \<open>
  The whole of \<open>_query\<close> (an Isabelle name cannot start with an underscore). Under v1 the
  \<open>notify\<close> entry is written into the caller's mapping; under v2 \<open>data\<close> is rebound to the
  JSON text and the caller's mapping stays as it was.
\<close>

definition query ::
  "env \<Rightarrow> string \<Rightarrow> pyval \<Rightarrow> pyval \<Rightarrow> string \<Rightarrow> pydict option \<Rightarrow> outcome" where
  "query env function api_key api_version meth data_arg =
     (let d = (case data_arg of None \<Rightarrow> [] | Some m \<Rightarrow> m) in
      case resolve env api_key api_version of
        Inl e \<Rightarrow>
         (if e \<in> {NameError, KeyError, AttributeError} then
            \<lparr>result = Inr (PBool False), sent = [],
             logged = [LogError (Msg ''No HipChat api key or version found.'')],
             arg_data = data_arg\<rparr>
          else \<lparr>result = Inl e, sent = [], logged = [], arg_data = data_arg\<rparr>)
      | Inr (k, v) \<Rightarrow>
         (case build env function k v meth d of
            Raise e \<Rightarrow> \<lparr>result = Inl e, sent = [], logged = [], arg_data = data_arg\<rparr>
          | Return r \<Rightarrow>
             \<lparr>result = Inr r, sent = [],
              logged = [LogError (Msg ''Unsupported HipChat API version'')],
              arg_data = data_arg\<rparr>
          | Go (req, d', key) \<Rightarrow>
             (let after = map_option (\<lambda>_. d') data_arg in
              case transport env req of
                Inl e \<Rightarrow>
                 (if e = ConnectionError then
                    \<lparr>result = Inr (PBool False), sent = [req],
                     logged = [LogError (Exc e)], arg_data = after\<rparr>
                  else \<lparr>result = Inl e, sent = [req], logged = [], arg_data = after\<rparr>)
              | Inr resp \<Rightarrow>
                 (case interpret_response req key resp of
                    (r, logs) \<Rightarrow>
                      \<lparr>result = r, sent = [req], logged = logs, arg_data = after\<rparr>))))"

subsection \<open>The public operations\<close>

definition list_rooms :: "env \<Rightarrow> pyval \<Rightarrow> pyval \<Rightarrow> outcome" where
  "list_rooms env api_key api_version = query env ''rooms'' api_key api_version ''GET'' None"

definition list_users :: "env \<Rightarrow> pyval \<Rightarrow> pyval \<Rightarrow> outcome" where
  "list_users env api_key api_version = query env ''users'' api_key api_version ''GET'' None"

text \<open>
  The loop of \<open>find_room\<close> and \<open>find_user\<close> over a list: \<open>rooms[x]['name'] == name\<close> for
  \<open>x\<close> from 0 upwards, returning at the first hit.
\<close>

fun first_named :: "string \<Rightarrow> pyval list \<Rightarrow> exn + pyval" where
  "first_named name [] = Inr (PBool False)"
| "first_named name (r # rs) =
     (case py_subscript r ''name'' of
        Inl e \<Rightarrow> Inl e
      | Inr n \<Rightarrow> if n = PStr name then Inr r else first_named name rs)"

text \<open>
  The same on whatever the list operation returned: \<open>len\<close> of a boolean or an integer
  raises \<open>TypeError\<close>, element 0 of a non-empty string is a string, which takes no string
  subscript, and 0 is not a key of a dictionary with string keys.
\<close>

definition scan :: "string \<Rightarrow> pyval \<Rightarrow> exn + pyval" where
  "scan name xs =
     (case xs of
        PList rs \<Rightarrow> first_named name rs
      | PStr s \<Rightarrow> if s = [] then Inr (PBool False) else Inl TypeError
      | PDict d \<Rightarrow> if d = [] then Inr (PBool False) else Inl KeyError
      | _ \<Rightarrow> Inl TypeError)"

text \<open>
  Lines 206 to 210 and 230 to 234, the same in both functions: what is done with the
  outcome of the list operation. An exception of the list operation passes through.
\<close>

definition find_in :: "string \<Rightarrow> outcome \<Rightarrow> outcome" where
  "find_in name out =
     (case result out of
        Inl e \<Rightarrow> out
      | Inr xs \<Rightarrow> out\<lparr>result := (if truthy xs then scan name xs else Inr (PBool False))\<rparr>)"

definition find_room :: "env \<Rightarrow> string \<Rightarrow> pyval \<Rightarrow> pyval \<Rightarrow> outcome" where
  "find_room env name api_key api_version = find_in name (list_rooms env api_key api_version)"

definition find_user :: "env \<Rightarrow> string \<Rightarrow> pyval \<Rightarrow> pyval \<Rightarrow> outcome" where
  "find_user env name api_key api_version = find_in name (list_users env api_key api_version)"

text \<open>Lines 264 to 270: the \<open>parameters\<close> dictionary of \<open>send_message\<close>.\<close>

definition parameters :: "pyval \<Rightarrow> string \<Rightarrow> string \<Rightarrow> pyval \<Rightarrow> pyval \<Rightarrow> pydict" where
  "parameters room_id message from_name color notify =
     dict_set (dict_set (dict_set (dict_set (dict_set (dict_set []
       ''room_id'' room_id)
       ''from'' (PStr (take 15 from_name)))
       ''message'' (PStr (take 10000 message)))
       ''message_format'' (PStr ''text''))
       ''color'' color)
       ''notify'' notify"

text \<open>
  \<open>send_message\<close>: the dictionary is local to the call, so the caller sees none of it
  afterwards.
\<close>

definition send_message ::
  "env \<Rightarrow> pyval \<Rightarrow> string \<Rightarrow> string \<Rightarrow> pyval \<Rightarrow> pyval \<Rightarrow> pyval \<Rightarrow> pyval \<Rightarrow> outcome" where
  "send_message env room_id message from_name api_key api_version color notify =
     (let out = query env ''message'' api_key api_version ''POST''
                  (Some (parameters room_id message from_name color notify))
      in case result out of
           Inl e \<Rightarrow> out\<lparr>arg_data := None\<rparr>
         | Inr r \<Rightarrow> out\<lparr>result := Inr (PBool (truthy r)), arg_data := None\<rparr>)"

text \<open>The five operations as one type, to speak of every operation at once.\<close>

datatype operation =
    ListRooms
  | ListUsers
  | FindRoom string
  | FindUser string
  | SendMessage pyval string string pyval pyval

fun perform :: "env \<Rightarrow> operation \<Rightarrow> pyval \<Rightarrow> pyval \<Rightarrow> outcome" where
  "perform env ListRooms k v = list_rooms env k v"
| "perform env ListUsers k v = list_users env k v"
| "perform env (FindRoom name) k v = find_room env name k v"
| "perform env (FindUser name) k v = find_user env name k v"
| "perform env (SendMessage room_id message from_name color notify) k v =
     send_message env room_id message from_name k v color notify"

subsection \<open>Example environments\<close>

text \<open>
  Concrete collaborators for the worked examples below; the theorems themselves hold for
  every environment. \<open>example_join\<close> agrees with \<open>urljoin\<close> where the base has no path or
  ends in a slash and the reference is a plain relative path, which is all the examples
  use. \<open>example_str\<close> is \<open>str\<close> on \<open>None\<close>, booleans, integers and strings; the text of a
  list or a dictionary is not spelled out, and the examples never ask for one.
\<close>

definition example_join :: "string \<Rightarrow> string \<Rightarrow> bool \<Rightarrow> exn + string" where
  "example_join base ref allow_fragments =
     Inr (if base \<noteq> [] \<and> last base = CHR ''/'' then base @ ref else base @ ''/'' @ ref)"

fun decimal :: "nat \<Rightarrow> string" where
  "decimal n =
     (if n < 10 then [''0123456789'' ! n]
      else decimal (n div 10) @ [''0123456789'' ! (n mod 10)])"

declare decimal.simps [simp del]

definition example_str :: "pyval \<Rightarrow> string" where
  "example_str x =
     (case x of
        PNone \<Rightarrow> ''None''
      | PBool b \<Rightarrow> if b then ''True'' else ''False''
      | PInt i \<Rightarrow> if i < 0 then ''-'' @ decimal (nat (- i)) else decimal (nat i)
      | PStr s \<Rightarrow> s
      | PList xs \<Rightarrow> ''[...]''
      | PDict d \<Rightarrow> ''{...}'')"

text \<open>
  \<open>__salt__\<close> with a \<open>config.option\<close> that knows the one profile \<open>hipchat\<close> and answers the
  empty string, its default, for any other name.
\<close>

definition configured :: "pyval \<Rightarrow> (string \<rightharpoonup> (string \<Rightarrow> pyval)) option" where
  "configured options =
     Some [''config.option'' \<mapsto> (\<lambda>name. if name = ''hipchat'' then options else PStr [])]"

text \<open>A transport that answers every request alike, and one that raises.\<close>

definition answer :: "int \<Rightarrow> pyval option \<Rightarrow> http_request \<Rightarrow> exn + http_response" where
  "answer code body req = Inr \<lparr>status_code = code, json_value = body\<rparr>"

definition refuse :: "exn \<Rightarrow> http_request \<Rightarrow> exn + http_response" where
  "refuse e req = Inl e"

definition example_env ::
  "(string \<rightharpoonup> (string \<Rightarrow> pyval)) option \<Rightarrow> (http_request \<Rightarrow> exn + http_response) \<Rightarrow> env" where
  "example_env s t = \<lparr>salt = s, url_join = example_join, py_str = example_str, transport = t\<rparr>"

section \<open>Properties\<close>

subsection \<open>Auxiliary facts\<close>

lemma py_get_Inl: "py_get x key = Inl e \<Longrightarrow> e = AttributeError"
  by (cases x; cases key; simp)

lemma py_get_Some_Inl:
  "py_get x (Some key) = Inl e \<longleftrightarrow> e = AttributeError \<and> (\<forall>d. x \<noteq> PDict d)"
  by (cases x) auto

lemma py_get_Some_Inr:
  "py_get x (Some key) = Inr y \<longleftrightarrow> (\<exists>d. x = PDict d \<and> y = dict_get d key)"
  by (cases x) auto

lemma lookup_descriptor_versions:
  "lookup_descriptor r v f = Some desc \<Longrightarrow> v = ''v1'' \<or> v = ''v2''"
  by (auto simp: lookup_descriptor_def hipchat_functions_def split: if_splits)

lemma v2_message_key:
  "lookup_descriptor r ''v2'' ''message'' = Some desc \<Longrightarrow> response desc = None"
  by (auto simp: lookup_descriptor_def hipchat_functions_def)

lemma map_of_dict_set: "map_of (dict_set d k x) = (map_of d)(k \<mapsto> x)"
  by (simp add: dict_set_def update_conv')

text \<open>The \<open>try\<close> block raises nothing but what the \<open>except\<close> clause names.\<close>

lemma resolve_raises:
  "resolve env k v = Inl e \<Longrightarrow> e \<in> {NameError, KeyError, AttributeError}"
  by (auto simp: resolve_def Let_def split: option.splits if_splits sum.splits dest: py_get_Inl)

text \<open>
  When the lookup fails: a credential is missing and either \<open>__salt__\<close> is not defined,
  or it has no \<open>config.option\<close>, or the \<open>hipchat\<close> option is not a mapping.
\<close>

lemma resolve_Inl_iff:
  "resolve env k v = Inl e \<longleftrightarrow>
     (\<not> truthy k \<or> \<not> truthy v) \<and>
     (case salt env of
        None \<Rightarrow> e = NameError
      | Some funcs \<Rightarrow>
         (case funcs ''config.option'' of
            None \<Rightarrow> e = KeyError
          | Some config_option \<Rightarrow>
             e = AttributeError \<and> (\<forall>d. config_option ''hipchat'' \<noteq> PDict d)))"
  by (auto simp: resolve_def Let_def py_get_Some_Inl py_get_Some_Inr
           split: option.splits sum.splits)

text \<open>
  The descriptor lookup of line 102 comes before the version test of lines 105 to 121 and
  raises on every version the table does not have, so the \<open>else\<close> branch is never taken.
\<close>

lemma build_never_returns: "build env f k av m d \<noteq> Return r"
  by (auto simp: build_def Let_def split: pyval.splits sum.splits option.splits
           dest: lookup_descriptor_versions)

lemma build_unsupported:
  "av \<noteq> PStr ''v1'' \<Longrightarrow> av \<noteq> PStr ''v2'' \<Longrightarrow> \<exists>e. build env f k av m d = Raise e"
  by (auto simp: build_def Let_def split: pyval.splits sum.splits option.splits
           dest: lookup_descriptor_versions)

lemma build_Go:
  "build env f k av m d = Go (req, d', key) \<Longrightarrow>
     \<exists>v base desc.
       av = PStr v \<and> (v = ''v1'' \<or> v = ''v2'') \<and>
       url_join env api_url (v @ ''/'') True = Inr base \<and>
       lookup_descriptor (room_id_of env d) v f = Some desc \<and>
       url_join env base (request desc) False = Inr (url req) \<and>
       key = response desc \<and> http_method req = m \<and> verify req \<and>
       (v = ''v1'' \<longrightarrow>
          d' = dict_set d ''notify'' (PInt (if truthy (dict_get d ''notify'') then 1 else 0)) \<and>
          data req = FormFields d') \<and>
       (v = ''v2'' \<longrightarrow> d' = d \<and> data req = JsonText (json_dumps (PDict d)))"
  by (auto simp: build_def Let_def split: pyval.splits sum.splits option.splits if_splits)

text \<open>A call that sent a request got through the lookup and the construction.\<close>

lemma query_sent:
  "sent (query env f k v m da) = [req] \<Longrightarrow>
     \<exists>k' v' d' key.
       resolve env k v = Inr (k', v') \<and>
       build env f k' v' m (case da of None \<Rightarrow> [] | Some x \<Rightarrow> x) = Go (req, d', key) \<and>
       arg_data (query env f k v m da) = map_option (\<lambda>_. d') da \<and>
       result (query env f k v m da) =
         (case transport env req of
            Inl e \<Rightarrow> if e = ConnectionError then Inr (PBool False) else Inl e
          | Inr resp \<Rightarrow> fst (interpret_response req key resp))"
  by (auto simp: query_def Let_def split: sum.splits flow.splits if_splits prod.splits)

lemma query_sent_cases:
  "sent (query env f k v m da) = [] \<or> (\<exists>req. sent (query env f k v m da) = [req])"
  by (auto simp: query_def Let_def split: sum.splits flow.splits if_splits prod.splits)

lemma query_sent_resolved:
  "sent (query env f k v m da) = [req] \<Longrightarrow> \<exists>k' av. resolve env k v = Inr (k', av)"
  using query_sent by blast

lemma query_sent_key:
  assumes "sent (query env f k v m da) = [req]" and "resolve env k v = Inr (k', PStr ver)"
  shows "\<exists>desc. lookup_descriptor (room_id_of env (case da of None \<Rightarrow> [] | Some x \<Rightarrow> x)) ver f
                   = Some desc \<and>
                result (query env f k v m da) =
                  (case transport env req of
                     Inl e \<Rightarrow> if e = ConnectionError then Inr (PBool False) else Inl e
                   | Inr resp \<Rightarrow> fst (interpret_response req (response desc) resp))"
proof -
  obtain k2 v2 d' key where r: "resolve env k v = Inr (k2, v2)"
    and b: "build env f k2 v2 m (case da of None \<Rightarrow> [] | Some x \<Rightarrow> x) = Go (req, d', key)"
    and res: "result (query env f k v m da) =
         (case transport env req of
            Inl e \<Rightarrow> if e = ConnectionError then Inr (PBool False) else Inl e
          | Inr resp \<Rightarrow> fst (interpret_response req key resp))"
    using query_sent [OF assms(1)] by blast
  from r assms(2) have "v2 = PStr ver" by simp
  with build_Go [OF b] res show ?thesis by auto
qed

lemma query_no_content:
  assumes "sent (query env f k v m da) = [req]" and "transport env req = Inr resp"
    and "status_code resp = 204"
  shows "result (query env f k v m da) = Inr (PBool True)"
  using query_sent [OF assms(1)] assms(2,3) by (auto simp: interpret_response_def)

text \<open>
  What the request carries and what becomes of the caller's mapping, by version: under
  v1 the mapping with \<open>notify\<close> overwritten, under v2 the JSON document of the mapping
  as it came.
\<close>

lemma query_sent_data:
  assumes "sent (query env f k v m da) = [req]" and "resolve env k v = Inr (k', av)"
  shows "(av = PStr ''v1'' \<and>
          data req = FormFields (dict_set (case da of None \<Rightarrow> [] | Some x \<Rightarrow> x) ''notify''
                       (PInt (if truthy (dict_get (case da of None \<Rightarrow> [] | Some x \<Rightarrow> x)
                                                  ''notify'')
                              then 1 else 0))) \<and>
          arg_data (query env f k v m da) =
            map_option (\<lambda>d. dict_set d ''notify''
                       (PInt (if truthy (dict_get d ''notify'') then 1 else 0))) da) \<or>
         (av = PStr ''v2'' \<and>
          data req = JsonText (json_dumps (PDict (case da of None \<Rightarrow> [] | Some x \<Rightarrow> x))) \<and>
          arg_data (query env f k v m da) = da)"
proof -
  obtain k2 v2 d' key where r: "resolve env k v = Inr (k2, v2)"
    and b: "build env f k2 v2 m (case da of None \<Rightarrow> [] | Some x \<Rightarrow> x) = Go (req, d', key)"
    and a: "arg_data (query env f k v m da) = map_option (\<lambda>_. d') da"
    using query_sent [OF assms(1)] by blast
  from r assms(2) have "v2 = av" by simp
  with build_Go [OF b] a show ?thesis
    by (cases da) auto
qed

text \<open>Every public operation is one call of \<open>_query\<close> and passes its exception on.\<close>

lemma perform_query:
  "\<exists>f m da.
     sent (perform env op k v) = sent (query env f k v m da) \<and>
     logged (perform env op k v) = logged (query env f k v m da) \<and>
     (\<forall>e. result (query env f k v m da) = Inl e \<longrightarrow> result (perform env op k v) = Inl e) \<and>
     (result (query env f k v m da) = Inr (PBool False) \<longrightarrow>
        result (perform env op k v) = Inr (PBool False))"
proof -
  let ?P = "\<lambda>f m da.
     sent (perform env op k v) = sent (query env f k v m da) \<and>
     logged (perform env op k v) = logged (query env f k v m da) \<and>
     (\<forall>e. result (query env f k v m da) = Inl e \<longrightarrow> result (perform env op k v) = Inl e) \<and>
     (result (query env f k v m da) = Inr (PBool False) \<longrightarrow>
        result (perform env op k v) = Inr (PBool False))"
  show ?thesis
  proof (cases op)
    case ListRooms
    then have "?P ''rooms'' ''GET'' None" by (simp add: list_rooms_def)
    then show ?thesis by blast
  next
    case ListUsers
    then have "?P ''users'' ''GET'' None" by (simp add: list_users_def)
    then show ?thesis by blast
  next
    case (FindRoom name)
    then have "?P ''rooms'' ''GET'' None"
      by (auto simp: find_room_def find_in_def list_rooms_def split: sum.splits)
    then show ?thesis by blast
  next
    case (FindUser name)
    then have "?P ''users'' ''GET'' None"
      by (auto simp: find_user_def find_in_def list_users_def split: sum.splits)
    then show ?thesis by blast
  next
    case (SendMessage room_id message from_name color notify)
    then have "?P ''message'' ''POST'' (Some (parameters room_id message from_name color notify))"
      by (auto simp: send_message_def Let_def split: sum.splits)
    then show ?thesis by blast
  qed
qed

lemma send_message_sent:
  "sent (send_message env room_id message from_name k v color notify) =
   sent (query env ''message'' k v ''POST''
           (Some (parameters room_id message from_name color notify)))"
  by (simp add: send_message_def Let_def split: sum.splits)

lemma send_message_result:
  "result (send_message env room_id message from_name k v color notify) =
   (case result (query env ''message'' k v ''POST''
                   (Some (parameters room_id message from_name color notify))) of
      Inl e \<Rightarrow> Inl e | Inr r \<Rightarrow> Inr (PBool (truthy r)))"
  by (simp add: send_message_def Let_def split: sum.splits)

lemma parameters_list:
  "parameters room_id message from_name color notify =
     [(''room_id'', room_id), (''from'', PStr (take 15 from_name)),
      (''message'', PStr (take 10000 message)), (''message_format'', PStr ''text''),
      (''color'', color), (''notify'', notify)]"
  by (simp add: parameters_def dict_set_def)

text \<open>The loop of \<open>find_room\<close> and \<open>find_user\<close> on a list of records that all have a name.\<close>

lemma first_named_find:
  assumes "\<forall>r \<in> set rs. \<exists>d n. r = PDict d \<and> map_of d ''name'' = Some n"
  shows "first_named name rs =
           (case find (\<lambda>r. py_subscript r ''name'' = Inr (PStr name)) rs of
              Some r \<Rightarrow> Inr r
            | None \<Rightarrow> Inr (PBool False))"
  using assms by (induction rs) auto

lemma first_named_miss:
  assumes "\<forall>r \<in> set rs. \<exists>d n. r = PDict d \<and> map_of d ''name'' = Some n \<and> n \<noteq> PStr name"
  shows "first_named name rs = Inr (PBool False)"
  using assms by (induction rs) auto

lemma find_in_list:
  assumes "result out = Inr (PList rs)"
    and "\<forall>r \<in> set rs. \<exists>d n. r = PDict d \<and> map_of d ''name'' = Some n"
  shows "result (find_in name out) =
           (case find (\<lambda>r. py_subscript r ''name'' = Inr (PStr name)) rs of
              Some r \<Rightarrow> Inr r
            | None \<Rightarrow> Inr (PBool False))"
  using assms(1) first_named_find [OF assms(2), of name]
  by (cases rs) (simp_all add: find_in_def scan_def)

lemma find_in_miss:
  assumes "result out = Inr (PList rs)"
    and "\<forall>r \<in> set rs. \<exists>d n. r = PDict d \<and> map_of d ''name'' = Some n \<and> n \<noteq> PStr name"
  shows "result (find_in name out) = Inr (PBool False)"
  using assms(1) first_named_miss [OF assms(2)]
  by (simp add: find_in_def scan_def)

text \<open>Unfolding everything, to run the model on the examples.\<close>

lemmas run =
  query_def resolve_def build_def interpret_response_def lookup_descriptor_def
  hipchat_functions_def api_url_def room_id_of_def dict_get_def dict_set_def
  list_rooms_def list_users_def find_room_def find_user_def find_in_def scan_def
  send_message_def parameters_def Let_def
  example_env_def example_join_def example_str_def answer_def refuse_def configured_def

subsection \<open>Which failures are absorbed\<close>

text \<open>
  Claim C1 says that every operation turns every kind of failure into a negative result
  and never raises. As stated it fails: a 200 answer whose body is not JSON makes
  \<open>list_rooms\<close> raise the decoder's \<open>ValueError\<close>.
\<close>

theorem decode_error_counterexample:
  "result (perform (example_env None (answer 200 None)) ListRooms (PStr ''key'') (PStr ''v1''))
     = Inl ValueError"
  by (simp add: run)

text \<open>
  Claim C1, amended. For every public operation these failures end in the result \<open>False\<close>
  with nothing raised: a credential lookup that raises \<open>NameError\<close>, \<open>KeyError\<close> or
  \<open>AttributeError\<close> (then no request is sent either), a \<open>ConnectionError\<close> of the
  transport, a status other than 200 and 204 whose body is a JSON object, and for
  \<open>find_room\<close> and \<open>find_user\<close> a list of named records none of which has the name. A
  200 answer whose body is not JSON is not absorbed: every operation raises \<open>ValueError\<close>.
\<close>

theorem absorbed_failures:
  "(resolve env k v = Inl e \<longrightarrow>
      result (perform env op k v) = Inr (PBool False) \<and> sent (perform env op k v) = []) \<and>
   (sent (perform env op k v) = [req] \<and> transport env req = Inl ConnectionError \<longrightarrow>
      result (perform env op k v) = Inr (PBool False)) \<and>
   (sent (perform env op k v) = [req] \<and> transport env req = Inr resp \<and>
    status_code resp \<noteq> 200 \<and> status_code resp \<noteq> 204 \<and> json_value resp = Some (PDict body) \<longrightarrow>
      result (perform env op k v) = Inr (PBool False)) \<and>
   (result (list_rooms env k v) = Inr (PList rs) \<and>
    (\<forall>r \<in> set rs. \<exists>d n. r = PDict d \<and> map_of d ''name'' = Some n \<and> n \<noteq> PStr name) \<longrightarrow>
      result (find_room env name k v) = Inr (PBool False)) \<and>
   (result (list_users env k v) = Inr (PList rs) \<and>
    (\<forall>r \<in> set rs. \<exists>d n. r = PDict d \<and> map_of d ''name'' = Some n \<and> n \<noteq> PStr name) \<longrightarrow>
      result (find_user env name k v) = Inr (PBool False)) \<and>
   (sent (perform env op k v) = [req] \<and> transport env req = Inr resp \<and>
    status_code resp = 200 \<and> json_value resp = None \<longrightarrow>
      result (perform env op k v) = Inl ValueError)"
proof -
  obtain f m da where s: "sent (perform env op k v) = sent (query env f k v m da)"
    and ex: "\<And>e. result (query env f k v m da) = Inl e \<Longrightarrow> result (perform env op k v) = Inl e"
    and no: "result (query env f k v m da) = Inr (PBool False) \<Longrightarrow>
             result (perform env op k v) = Inr (PBool False)"
    using perform_query [of env op k v] by blast
  have credential: "result (perform env op k v) = Inr (PBool False) \<and> sent (perform env op k v) = []"
    if "resolve env k v = Inl e"
  proof -
    from that resolve_raises [OF that]
    have "result (query env f k v m da) = Inr (PBool False) \<and> sent (query env f k v m da) = []"
      by (auto simp: query_def)
    with s no show ?thesis by simp
  qed
  have sentq: "\<exists>key. result (query env f k v m da) =
         (case transport env req of
            Inl e \<Rightarrow> if e = ConnectionError then Inr (PBool False) else Inl e
          | Inr resp \<Rightarrow> fst (interpret_response req key resp))"
    if "sent (perform env op k v) = [req]"
  proof -
    from that s have "sent (query env f k v m da) = [req]" by simp
    from query_sent [OF this] show ?thesis by blast
  qed
  have connection: "result (perform env op k v) = Inr (PBool False)"
    if "sent (perform env op k v) = [req]" "transport env req = Inl ConnectionError"
    using sentq [OF that(1)] that(2) no by auto
  have status: "result (perform env op k v) = Inr (PBool False)"
    if "sent (perform env op k v) = [req]" "transport env req = Inr resp"
       "status_code resp \<noteq> 200" "status_code resp \<noteq> 204" "json_value resp = Some (PDict body)"
    using sentq [OF that(1)] that(2-5) no by (auto simp: interpret_response_def Let_def)
  have decode: "result (perform env op k v) = Inl ValueError"
    if "sent (perform env op k v) = [req]" "transport env req = Inr resp"
       "status_code resp = 200" "json_value resp = None"
    using sentq [OF that(1)] that(2-4) ex by (auto simp: interpret_response_def)
  have rooms: "result (find_room env name k v) = Inr (PBool False)"
    if "result (list_rooms env k v) = Inr (PList rs)"
       "\<forall>r \<in> set rs. \<exists>d n. r = PDict d \<and> map_of d ''name'' = Some n \<and> n \<noteq> PStr name"
    using find_in_miss [OF that] by (simp add: find_room_def)
  have users: "result (find_user env name k v) = Inr (PBool False)"
    if "result (list_users env k v) = Inr (PList rs)"
       "\<forall>r \<in> set rs. \<exists>d n. r = PDict d \<and> map_of d ''name'' = Some n \<and> n \<noteq> PStr name"
    using find_in_miss [OF that] by (simp add: find_user_def)
  from credential connection status decode rooms users show ?thesis by blast
qed

text \<open>
  One run for each part: no \<open>__salt__\<close> and no credentials, a refused connection, a 401
  with an \<open>error\<close> object, two lookups of a name that is not there, and a 200 with a body
  that is not JSON.
\<close>

theorem absorbed_failures_witness:
  "result (perform (example_env None (answer 204 None))
             (SendMessage (PStr ''Dev'') ''hello'' ''Build Server'' (PStr ''yellow'') (PBool False))
             PNone PNone)
     = Inr (PBool False) \<and>
   result (perform (example_env None (refuse ConnectionError)) (FindRoom ''Dev'')
             (PStr ''key'') (PStr ''v1''))
     = Inr (PBool False) \<and>
   result (perform (example_env None
                      (answer 401 (Some (PDict [(''error'', PDict [(''message'', PStr ''bad token'')])]))))
             ListUsers (PStr ''key'') (PStr ''v2''))
     = Inr (PBool False) \<and>
   result (find_room (example_env None (answer 200 (Some (PDict
             [(''rooms'', PList [PDict [(''name'', PStr ''Dev'')], PDict [(''name'', PStr ''Ops'')]]),
              (''users'', PList [PDict [(''name'', PStr ''Dev'')], PDict [(''name'', PStr ''Ops'')]])]))))
             ''QA'' (PStr ''key'') (PStr ''v1''))
     = Inr (PBool False) \<and>
   result (find_user (example_env None (answer 200 (Some (PDict
             [(''rooms'', PList [PDict [(''name'', PStr ''Dev'')], PDict [(''name'', PStr ''Ops'')]]),
              (''users'', PList [PDict [(''name'', PStr ''Dev'')], PDict [(''name'', PStr ''Ops'')]])]))))
             ''QA'' (PStr ''key'') (PStr ''v1''))
     = Inr (PBool False) \<and>
   result (perform (example_env None (answer 200 None)) ListUsers (PStr ''key'') (PStr ''v2''))
     = Inl ValueError"
proof -
  let ?rs = "[PDict [(''name'', PStr ''Dev'')], PDict [(''name'', PStr ''Ops'')]]"
  let ?A = "example_env None (answer 204 None)"
  let ?B = "example_env None (refuse ConnectionError)"
  let ?err = "\<lparr>status_code = 401,
               json_value = Some (PDict [(''error'', PDict [(''message'', PStr ''bad token'')])])\<rparr>"
  let ?C = "example_env None
              (answer 401 (Some (PDict [(''error'', PDict [(''message'', PStr ''bad token'')])])))"
  let ?D = "example_env None (answer 200 (Some (PDict
              [(''rooms'', PList ?rs), (''users'', PList ?rs)])))"
  let ?F = "example_env None (answer 200 None)"
  let ?r1 = "\<lparr>http_method = ''GET'', url = ''https://api.hipchat.com/v1/rooms/list'',
         headers = [], params = [(''format'', PStr ''json''), (''auth_token'', PStr ''key'')],
         data = FormFields [(''notify'', PInt 0)], verify = True\<rparr>"
  let ?r2 = "\<lparr>http_method = ''GET'', url = ''https://api.hipchat.com/v2/user'',
         headers = [(''Authorization'', ''Bearer key'')], params = [],
         data = JsonText (JObject []), verify = True\<rparr>"
  have a: "resolve ?A PNone PNone = Inl NameError"
    by (simp add: resolve_def example_env_def)
  have b: "sent (perform ?B (FindRoom ''Dev'') (PStr ''key'') (PStr ''v1'')) = [?r1] \<and>
           transport ?B ?r1 = Inl ConnectionError"
    by (simp add: run)
  have c: "sent (perform ?C ListUsers (PStr ''key'') (PStr ''v2'')) = [?r2] \<and>
           transport ?C ?r2 = Inr ?err \<and> status_code ?err \<noteq> 200 \<and> status_code ?err \<noteq> 204 \<and>
           json_value ?err = Some (PDict [(''error'', PDict [(''message'', PStr ''bad token'')])])"
    by (simp add: run)
  have d: "result (list_rooms ?D (PStr ''key'') (PStr ''v1'')) = Inr (PList ?rs) \<and>
           (\<forall>r \<in> set ?rs. \<exists>d n. r = PDict d \<and> map_of d ''name'' = Some n \<and> n \<noteq> PStr ''QA'')"
    by (simp add: run)
  have e: "result (list_users ?D (PStr ''key'') (PStr ''v1'')) = Inr (PList ?rs) \<and>
           (\<forall>r \<in> set ?rs. \<exists>d n. r = PDict d \<and> map_of d ''name'' = Some n \<and> n \<noteq> PStr ''QA'')"
    by (simp add: run)
  have f: "sent (perform ?F ListUsers (PStr ''key'') (PStr ''v2'')) = [?r2] \<and>
           transport ?F ?r2 = Inr \<lparr>status_code = 200, json_value = None\<rparr> \<and>
           status_code \<lparr>status_code = 200, json_value = None\<rparr> = 200 \<and>
           json_value \<lparr>status_code = 200, json_value = None\<rparr> = None"
    by (simp add: run)
  have 1: "result (perform ?A
             (SendMessage (PStr ''Dev'') ''hello'' ''Build Server'' (PStr ''yellow'') (PBool False))
             PNone PNone) = Inr (PBool False)"
    using a absorbed_failures [of ?A PNone PNone NameError] by blast
  have 2: "result (perform ?B (FindRoom ''Dev'') (PStr ''key'') (PStr ''v1'')) = Inr (PBool False)"
    using b absorbed_failures [of ?B "PStr ''key''" "PStr ''v1''" _ "FindRoom ''Dev''" ?r1] by blast
  have 3: "result (perform ?C ListUsers (PStr ''key'') (PStr ''v2'')) = Inr (PBool False)"
    using c absorbed_failures [of ?C "PStr ''key''" "PStr ''v2''" _ ListUsers ?r2 ?err
        "[(''error'', PDict [(''message'', PStr ''bad token'')])]"] by blast
  have 4: "result (find_room ?D ''QA'' (PStr ''key'') (PStr ''v1'')) = Inr (PBool False)"
    using d absorbed_failures [of ?D "PStr ''key''" "PStr ''v1''" _ _ _ _ _ ?rs "''QA''"] by blast
  have 5: "result (find_user ?D ''QA'' (PStr ''key'') (PStr ''v1'')) = Inr (PBool False)"
    using e absorbed_failures [of ?D "PStr ''key''" "PStr ''v1''" _ _ _ _ _ ?rs "''QA''"] by blast
  have 6: "result (perform ?F ListUsers (PStr ''key'') (PStr ''v2'')) = Inl ValueError"
    using f absorbed_failures [of ?F "PStr ''key''" "PStr ''v2''" _ ListUsers ?r2
        "\<lparr>status_code = 200, json_value = None\<rparr>"] by blast
  from 1 2 3 4 5 6 show ?thesis by simp
qed

subsection \<open>Unsupported versions\<close>

text \<open>
  Claim C2. For every API version that is neither \<open>v1\<close> nor \<open>v2\<close> the claim wants \<open>_query\<close>
  to return \<open>False\<close> with no request sent. What holds instead: whenever the credentials are
  there (passed in or read from the configuration) and the version is not one of the two,
  \<open>_query\<close> raises an exception; it does not return \<open>False\<close> and logs nothing. No request
  is sent, as the claim says.
\<close>

theorem unsupported_version_raises:
  assumes "resolve env api_key api_version = Inr (k, v)"
    and "v \<noteq> PStr ''v1''" and "v \<noteq> PStr ''v2''"
  shows "(\<exists>e. result (query env function api_key api_version meth data_arg) = Inl e) \<and>
         result (query env function api_key api_version meth data_arg) \<noteq> Inr (PBool False) \<and>
         sent (query env function api_key api_version meth data_arg) = [] \<and>
         logged (query env function api_key api_version meth data_arg) = []"
proof -
  obtain e where
    "build env function k v meth (case data_arg of None \<Rightarrow> [] | Some x \<Rightarrow> x) = Raise e"
    using build_unsupported [OF assms(2,3)] by blast
  with assms(1) show ?thesis by (simp add: query_def)
qed

text \<open>The call \<open>_query('rooms', api_key='key', api_version='v3')\<close> raises \<open>AttributeError\<close>.\<close>

theorem unsupported_version_raises_witness:
  "resolve (example_env None (answer 200 None)) (PStr ''key'') (PStr ''v3'')
     = Inr (PStr ''key'', PStr ''v3'') \<and>
   PStr ''v3'' \<noteq> PStr ''v1'' \<and> PStr ''v3'' \<noteq> PStr ''v2'' \<and>
   result (query (example_env None (answer 200 None))
             ''rooms'' (PStr ''key'') (PStr ''v3'') ''GET'' None)
     = Inl AttributeError \<and>
   sent (query (example_env None (answer 200 None))
           ''rooms'' (PStr ''key'') (PStr ''v3'') ''GET'' None)
     = []"
proof -
  have h: "resolve (example_env None (answer 200 None)) (PStr ''key'') (PStr ''v3'')
     = Inr (PStr ''key'', PStr ''v3'')"
    by (simp add: resolve_def)
  have r: "result (query (example_env None (answer 200 None))
                     ''rooms'' (PStr ''key'') (PStr ''v3'') ''GET'' None)
     = Inl AttributeError"
    by (simp add: query_def resolve_def build_def example_env_def example_join_def
        lookup_descriptor_def hipchat_functions_def api_url_def)
  show ?thesis
    using h r unsupported_version_raises [OF h, of "''rooms''" "''GET''" None] by simp
qed

text \<open>The message of the \<open>else\<close> branch is never logged, on any input.\<close>

lemma unsupported_message_never_logged:
  "LogError (Msg ''Unsupported HipChat API version'')
     \<notin> set (logged (query env function api_key api_version meth data_arg))"
  by (auto simp: query_def interpret_response_def Let_def build_never_returns
           split: sum.splits flow.splits prod.splits option.splits if_splits)

subsection \<open>Missing credentials\<close>

text \<open>
  Claim C3. With no version passed and a configuration that has the \<open>hipchat\<close> profile but
  no \<open>api_version\<close> entry in it, the claim wants every operation to return \<open>False\<close>, as it
  does when the configuration collaborator is absent. What holds instead: \<open>options.get\<close>
  yields \<open>None\<close> without raising, the \<open>except\<close> clause is not entered, and line 101 raises
  \<open>TypeError\<close> on \<open>None + '/'\<close> in every operation. With the \<open>__salt__\<close> global absent the
  same call returns \<open>False\<close>. Neither sends a request.
\<close>

theorem missing_version_key_raises:
  assumes "\<not> truthy api_version"
    and "salt env = Some funcs" and "funcs ''config.option'' = Some config_option"
    and "config_option ''hipchat'' = PDict options"
    and "map_of options ''api_version'' = None"
  shows "result (perform env op api_key api_version) = Inl TypeError \<and>
         sent (perform env op api_key api_version) = [] \<and>
         result (perform (env\<lparr>salt := None\<rparr>) op api_key api_version) = Inr (PBool False) \<and>
         sent (perform (env\<lparr>salt := None\<rparr>) op api_key api_version) = []"
proof -
  have "\<exists>k. resolve env api_key api_version = Inr (k, PNone)"
    using assms by (auto simp: resolve_def dict_get_def Let_def)
  then obtain k where res: "resolve env api_key api_version = Inr (k, PNone)" ..
  have present: "result (query env f api_key api_version m da) = Inl TypeError \<and>
                 sent (query env f api_key api_version m da) = []" for f m da
    using res by (simp add: query_def build_def)
  have absent: "result (query (env\<lparr>salt := None\<rparr>) f api_key api_version m da) = Inr (PBool False) \<and>
                sent (query (env\<lparr>salt := None\<rparr>) f api_key api_version m da) = []" for f m da
    using assms(1) by (simp add: query_def resolve_def)
  show ?thesis
    using perform_query [of env op api_key api_version]
          perform_query [of "env\<lparr>salt := None\<rparr>" op api_key api_version]
          present absent
    by metis
qed

text \<open>An empty \<open>hipchat\<close> profile: \<open>list_rooms()\<close> raises \<open>TypeError\<close>.\<close>

theorem missing_version_key_raises_witness:
  "\<not> truthy PNone \<and>
   salt (example_env (configured (PDict [])) (answer 200 None))
     = configured (PDict []) \<and>
   map_of ([] :: pydict) ''api_version'' = None \<and>
   result (perform (example_env (configured (PDict [])) (answer 200 None))
             ListRooms PNone PNone) = Inl TypeError \<and>
   result (perform ((example_env (configured (PDict [])) (answer 200 None))
                      \<lparr>salt := None\<rparr>)
             ListRooms PNone PNone) = Inr (PBool False)"
proof -
  let ?c = "\<lambda>name. if name = ''hipchat'' then PDict [] else PStr []"
  let ?E = "example_env (configured (PDict [])) (answer 200 None)"
  have h1: "\<not> truthy PNone" by simp
  have h2: "salt ?E = Some [''config.option'' \<mapsto> ?c]"
    by (simp add: example_env_def configured_def)
  have h3: "[''config.option'' \<mapsto> ?c] ''config.option'' = Some ?c" by simp
  have h4: "?c ''hipchat'' = PDict []" by simp
  have h5: "map_of ([] :: pydict) ''api_version'' = None" by simp
  show ?thesis
    using missing_version_key_raises [OF h1 h2 h3 h4 h5, of ListRooms PNone]
    by (simp add: example_env_def)
qed

text \<open>
  A profile that holds only a version is not stopped either: the request goes out, with
  \<open>None\<close> as its \<open>auth_token\<close>.
\<close>

lemma missing_api_key_still_sends:
  "map (\<lambda>req. map_of (params req) ''auth_token'')
     (sent (list_rooms (example_env (configured (PDict [(''api_version'', PStr ''v1'')]))
                                    (answer 200 (Some (PDict [(''rooms'', PList [])]))))
              PNone PNone))
   = [Some PNone]"
  by (simp add: run)

subsection \<open>Error statuses\<close>

text \<open>
  Claim C4. For a status other than 200 and 204 with a body that is not JSON, the claim
  wants the interpreter to return the failure result without raising. What holds instead:
  line 147 calls \<open>json()\<close> on the body to look for an \<open>error\<close> field, and the \<open>ValueError\<close> of
  that call leaves \<open>_query\<close> and every public operation; line 149 is not reached.
\<close>

theorem error_status_without_json_raises:
  assumes "sent (perform env op k v) = [req]"
    and "transport env req = Inr resp"
    and "status_code resp \<noteq> 200" and "status_code resp \<noteq> 204"
    and "json_value resp = None"
  shows "fst (interpret_response req key resp) = Inl ValueError \<and>
         result (perform env op k v) = Inl ValueError"
proof -
  have i: "fst (interpret_response req key' resp) = Inl ValueError" for key'
    using assms(3-5) by (simp add: interpret_response_def)
  obtain f m da where q: "sent (perform env op k v) = sent (query env f k v m da)"
    and e: "\<And>e. result (query env f k v m da) = Inl e \<Longrightarrow> result (perform env op k v) = Inl e"
    using perform_query [of env op k v] by blast
  from q assms(1) have "sent (query env f k v m da) = [req]" by simp
  from query_sent [OF this] assms(2) i
  have "result (query env f k v m da) = Inl ValueError" by auto
  with e i show ?thesis by simp
qed

text \<open>A 502 answer with an HTML body: \<open>list_rooms\<close> raises \<open>ValueError\<close>.\<close>

theorem error_status_without_json_raises_witness:
  "sent (perform (example_env None (answer 502 None)) ListRooms (PStr ''key'') (PStr ''v1''))
     = [\<lparr>http_method = ''GET'', url = ''https://api.hipchat.com/v1/rooms/list'', headers = [],
         params = [(''format'', PStr ''json''), (''auth_token'', PStr ''key'')],
         data = FormFields [(''notify'', PInt 0)], verify = True\<rparr>] \<and>
   result (perform (example_env None (answer 502 None)) ListRooms (PStr ''key'') (PStr ''v1''))
     = Inl ValueError"
proof -
  let ?E = "example_env None (answer 502 None)"
  let ?req = "\<lparr>http_method = ''GET'', url = ''https://api.hipchat.com/v1/rooms/list'', headers = [],
         params = [(''format'', PStr ''json''), (''auth_token'', PStr ''key'')],
         data = FormFields [(''notify'', PInt 0)], verify = True\<rparr>"
  let ?resp = "\<lparr>status_code = 502, json_value = None\<rparr>"
  have h1: "sent (perform ?E ListRooms (PStr ''key'') (PStr ''v1'')) = [?req]"
    by (simp add: run)
  have h2: "transport ?E ?req = Inr ?resp" by (simp add: example_env_def answer_def)
  have h3: "status_code ?resp \<noteq> 200" and h4: "status_code ?resp \<noteq> 204"
    and h5: "json_value ?resp = None" by simp_all
  show ?thesis
    using h1 error_status_without_json_raises [OF h1 h2 h3 h4 h5] by simp
qed

subsection \<open>Statuses 200 and 204\<close>

text \<open>
  Claim C5 says that a 200 answer to a v2 message request is a success by its status
  alone, with no look at the body. As stated it fails: with the JSON object \<open>{}\<close> as body
  \<open>send_message\<close> returns \<open>False\<close>, and with a body that is not JSON it raises
  \<open>ValueError\<close>.
\<close>

theorem status_200_v2_message_counterexample:
  "result (send_message (example_env None (answer 200 (Some (PDict [])))) (PStr ''Dev'') ''hello''
             ''Build Server'' (PStr ''key'') (PStr ''v2'') (PStr ''yellow'') (PBool False))
     = Inr (PBool False) \<and>
   result (send_message (example_env None (answer 200 None)) (PStr ''Dev'') ''hello''
             ''Build Server'' (PStr ''key'') (PStr ''v2'') (PStr ''yellow'') (PBool False))
     = Inl ValueError"
  by (simp add: run)

text \<open>
  Claim C5, amended. A 204 status makes \<open>_query\<close> return \<open>True\<close> for every function and
  version, whatever the body, and so \<open>list_rooms\<close>, \<open>list_users\<close> and \<open>send_message\<close>
  return \<open>True\<close>. A 200 answer to a v2 message request is decoded like any other and
  looked up under the absent key \<open>None\<close>: \<open>_query\<close> returns what \<open>get(None)\<close> gives, which
  is \<open>None\<close> on a JSON object, and \<open>send_message\<close> then returns \<open>False\<close>.
\<close>

theorem status_204_and_200:
  "(sent (query env f k v m da) = [req] \<and> transport env req = Inr resp \<and>
    status_code resp = 204 \<longrightarrow>
      result (query env f k v m da) = Inr (PBool True)) \<and>
   (sent (perform env op k v) = [req] \<and> transport env req = Inr resp \<and>
    status_code resp = 204 \<and> (\<forall>n. op \<noteq> FindRoom n \<and> op \<noteq> FindUser n) \<longrightarrow>
      result (perform env op k v) = Inr (PBool True)) \<and>
   (sent (query env ''message'' k v m da) = [req] \<and> transport env req = Inr resp \<and>
    status_code resp = 200 \<and> resolve env k v = Inr (k', PStr ''v2'') \<longrightarrow>
      result (query env ''message'' k v m da) =
        (case json_value resp of None \<Rightarrow> Inl ValueError | Some body \<Rightarrow> py_get body None)) \<and>
   (sent (send_message env room_id message from_name k v color notify) = [req] \<and>
    transport env req = Inr resp \<and> status_code resp = 200 \<and>
    resolve env k v = Inr (k', PStr ''v2'') \<and> json_value resp = Some (PDict body) \<longrightarrow>
      result (send_message env room_id message from_name k v color notify) = Inr (PBool False))"
proof -
  note no_content = query_no_content [of env _ k v _ _ req resp]
  have ops: "result (perform env op k v) = Inr (PBool True)"
    if "sent (perform env op k v) = [req]" "transport env req = Inr resp"
       "status_code resp = 204" "\<forall>n. op \<noteq> FindRoom n \<and> op \<noteq> FindUser n"
  proof (cases op)
    case ListRooms
    with that no_content show ?thesis by (simp add: list_rooms_def)
  next
    case ListUsers
    with that no_content show ?thesis by (simp add: list_users_def)
  next
    case (SendMessage r msg fr c n)
    with that no_content show ?thesis by (simp add: send_message_sent send_message_result)
  qed (use that in simp_all)
  have ok: "result (query env ''message'' k v m da) =
        (case json_value resp of None \<Rightarrow> Inl ValueError | Some body \<Rightarrow> py_get body None)"
    if "sent (query env ''message'' k v m da) = [req]" "transport env req = Inr resp"
       "status_code resp = 200" "resolve env k v = Inr (k', PStr ''v2'')" for m da
    using query_sent_key [OF that(1,4)] that(2,3)
    by (auto simp: interpret_response_def dest!: v2_message_key split: option.splits)
  show ?thesis
    using no_content ops ok
    by (auto simp: send_message_sent send_message_result)
qed

text \<open>
  A 204 answer to \<open>_query('rooms')\<close> and to \<open>send_message\<close>, and a 200 answer with the body
  \<open>{"id": 1}\<close> to a v2 message request and to \<open>send_message\<close>.
\<close>

theorem status_204_and_200_witness:
  "result (query (example_env None (answer 204 None)) ''rooms'' (PStr ''key'') (PStr ''v1'') ''GET'' None)
     = Inr (PBool True) \<and>
   result (perform (example_env None (answer 204 None))
             (SendMessage (PStr ''Dev'') ''hello'' ''Build Server'' (PStr ''yellow'') (PBool False))
             (PStr ''key'') (PStr ''v2''))
     = Inr (PBool True) \<and>
   result (query (example_env None (answer 200 (Some (PDict [(''id'', PInt 1)]))))
             ''message'' (PStr ''key'') (PStr ''v2'') ''POST'' (Some [(''room_id'', PStr ''Dev'')]))
     = Inr PNone \<and>
   result (send_message (example_env None (answer 200 (Some (PDict [(''id'', PInt 1)]))))
             (PStr ''Dev'') ''hello'' ''Build Server'' (PStr ''key'') (PStr ''v2'') (PStr ''yellow'')
             (PBool False))
     = Inr (PBool False)"
proof -
  let ?A = "example_env None (answer 204 None)"
  let ?B = "example_env None (answer 200 (Some (PDict [(''id'', PInt 1)])))"
  let ?op = "SendMessage (PStr ''Dev'') ''hello'' ''Build Server'' (PStr ''yellow'') (PBool False)"
  let ?no = "\<lparr>status_code = 204, json_value = None\<rparr>"
  let ?ok = "\<lparr>status_code = 200, json_value = Some (PDict [(''id'', PInt 1)])\<rparr>"
  let ?ra = "\<lparr>http_method = ''GET'', url = ''https://api.hipchat.com/v1/rooms/list'',
         headers = [], params = [(''format'', PStr ''json''), (''auth_token'', PStr ''key'')],
         data = FormFields [(''notify'', PInt 0)], verify = True\<rparr>"
  let ?rb = "\<lparr>http_method = ''POST'', url = ''https://api.hipchat.com/v2/room/Dev/notification'',
         headers = [(''Authorization'', ''Bearer key'')], params = [],
         data = JsonText (JObject [(''room_id'', JString ''Dev'')]), verify = True\<rparr>"
  let ?rm = "\<lparr>http_method = ''POST'', url = ''https://api.hipchat.com/v2/room/Dev/notification'',
         headers = [(''Authorization'', ''Bearer key'')], params = [],
         data = JsonText (JObject [(''room_id'', JString ''Dev''), (''from'', JString ''Build Server''),
                            (''message'', JString ''hello''), (''message_format'', JString ''text''),
                            (''color'', JString ''yellow''), (''notify'', JBool False)]),
         verify = True\<rparr>"
  have a: "sent (query ?A ''rooms'' (PStr ''key'') (PStr ''v1'') ''GET'' None) = [?ra] \<and>
           transport ?A ?ra = Inr ?no \<and> status_code ?no = 204"
    by (simp add: run)
  have b: "sent (perform ?A ?op (PStr ''key'') (PStr ''v2'')) = [?rm] \<and>
           transport ?A ?rm = Inr ?no \<and> status_code ?no = 204 \<and>
           (\<forall>n. ?op \<noteq> FindRoom n \<and> ?op \<noteq> FindUser n)"
    by (simp add: run)
  have c: "sent (query ?B ''message'' (PStr ''key'') (PStr ''v2'') ''POST''
                   (Some [(''room_id'', PStr ''Dev'')])) = [?rb] \<and>
           transport ?B ?rb = Inr ?ok \<and> status_code ?ok = 200 \<and>
           resolve ?B (PStr ''key'') (PStr ''v2'') = Inr (PStr ''key'', PStr ''v2'')"
    by (simp add: run)
  have d: "sent (send_message ?B (PStr ''Dev'') ''hello'' ''Build Server'' (PStr ''key'') (PStr ''v2'')
                   (PStr ''yellow'') (PBool False)) = [?rm] \<and>
           transport ?B ?rm = Inr ?ok \<and> status_code ?ok = 200 \<and>
           resolve ?B (PStr ''key'') (PStr ''v2'') = Inr (PStr ''key'', PStr ''v2'') \<and>
           json_value ?ok = Some (PDict [(''id'', PInt 1)])"
    by (simp add: run)
  have 1: "result (query ?A ''rooms'' (PStr ''key'') (PStr ''v1'') ''GET'' None) = Inr (PBool True)"
    using a status_204_and_200 [where env = ?A and f = "''rooms''" and k = "PStr ''key''"
        and v = "PStr ''v1''" and m = "''GET''" and da = None and req = ?ra and resp = ?no]
    by blast
  have 2: "result (perform ?A ?op (PStr ''key'') (PStr ''v2'')) = Inr (PBool True)"
    using b status_204_and_200 [where env = ?A and op = ?op and k = "PStr ''key''"
        and v = "PStr ''v2''" and req = ?rm and resp = ?no]
    by blast
  have 3: "result (query ?B ''message'' (PStr ''key'') (PStr ''v2'') ''POST''
                     (Some [(''room_id'', PStr ''Dev'')])) = Inr PNone"
    using c status_204_and_200 [where env = ?B and k = "PStr ''key''" and v = "PStr ''v2''"
        and m = "''POST''" and da = "Some [(''room_id'', PStr ''Dev'')]" and req = ?rb
        and resp = ?ok and k' = "PStr ''key''"]
    by simp
  have 4: "result (send_message ?B (PStr ''Dev'') ''hello'' ''Build Server'' (PStr ''key'') (PStr ''v2'')
                   (PStr ''yellow'') (PBool False)) = Inr (PBool False)"
    using d status_204_and_200 [where env = ?B and k = "PStr ''key''" and v = "PStr ''v2''"
        and req = ?rm and resp = ?ok and k' = "PStr ''key''" and room_id = "PStr ''Dev''"
        and message = "''hello''" and from_name = "''Build Server''" and color = "PStr ''yellow''"
        and notify = "PBool False" and body = "[(''id'', PInt 1)]"]
    by blast
  from 1 2 3 4 show ?thesis by simp
qed

text \<open>
  \<open>find_room\<close> and \<open>find_user\<close> take the \<open>True\<close> of a 204 answer for the list and raise
  \<open>TypeError\<close> on its length.
\<close>

lemma find_on_204_raises:
  assumes "transport env req = Inr resp" and "status_code resp = 204"
  shows "sent (find_room env name k v) = [req] \<Longrightarrow>
           result (find_room env name k v) = Inl TypeError"
    and "sent (find_user env name k v) = [req] \<Longrightarrow>
           result (find_user env name k v) = Inl TypeError"
proof -
  have "result (find_in name (query env f k v ''GET'' None)) = Inl TypeError"
    if "sent (find_in name (query env f k v ''GET'' None)) = [req]" for f
  proof -
    from that have "sent (query env f k v ''GET'' None) = [req]"
      by (simp add: find_in_def split: sum.splits)
    from query_no_content [OF this assms] show ?thesis
      by (simp add: find_in_def scan_def)
  qed
  then show "sent (find_room env name k v) = [req] \<Longrightarrow>
           result (find_room env name k v) = Inl TypeError"
    and "sent (find_user env name k v) = [req] \<Longrightarrow>
           result (find_user env name k v) = Inl TypeError"
    by (simp_all add: find_room_def find_user_def list_rooms_def list_users_def)
qed

subsection \<open>Truncation in \<open>send_message\<close>\<close>

text \<open>
  Claim C6. For every \<open>from_name\<close> and \<open>message\<close>, the \<open>parameters\<close> dictionary holds the
  first 15 characters of \<open>from_name\<close> and the first 10000 of \<open>message\<close>, and so does the
  body of every request that \<open>send_message\<close> sends, as form fields under v1 and as the JSON
  document under v2. The truncation is silent: the call leaves behind exactly what the
  call with the inputs already truncated leaves behind (return value, requests, log).
\<close>

theorem send_message_truncates:
  "dict_get (parameters room_id message from_name color notify) ''from'' = PStr (take 15 from_name) \<and>
   dict_get (parameters room_id message from_name color notify) ''message''
     = PStr (take 10000 message) \<and>
   length (take 15 from_name) \<le> 15 \<and> length (take 10000 message) \<le> 10000 \<and>
   send_message env room_id message from_name k v color notify
     = send_message env room_id (take 10000 message) (take 15 from_name) k v color notify \<and>
   (\<forall>req \<in> set (sent (send_message env room_id message from_name k v color notify)).
      (\<exists>d. data req = FormFields d \<and>
           map_of d ''from'' = Some (PStr (take 15 from_name)) \<and>
           map_of d ''message'' = Some (PStr (take 10000 message))) \<or>
      (\<exists>j. data req = JsonText (JObject j) \<and>
           map_of j ''from'' = Some (JString (take 15 from_name)) \<and>
           map_of j ''message'' = Some (JString (take 10000 message))))"
proof -
  let ?P = "parameters room_id message from_name color notify"
  have fields: "dict_get ?P ''from'' = PStr (take 15 from_name)"
               "dict_get ?P ''message'' = PStr (take 10000 message)"
    by (simp_all add: parameters_list dict_get_def)
  have same: "parameters room_id (take 10000 message) (take 15 from_name) color notify = ?P"
    by (simp add: parameters_def)
  have eq: "send_message env room_id message from_name k v color notify
     = send_message env room_id (take 10000 message) (take 15 from_name) k v color notify"
    by (simp add: send_message_def same)
  have body: "(\<exists>d. data req = FormFields d \<and>
           map_of d ''from'' = Some (PStr (take 15 from_name)) \<and>
           map_of d ''message'' = Some (PStr (take 10000 message))) \<or>
      (\<exists>j. data req = JsonText (JObject j) \<and>
           map_of j ''from'' = Some (JString (take 15 from_name)) \<and>
           map_of j ''message'' = Some (JString (take 10000 message)))"
    if "req \<in> set (sent (send_message env room_id message from_name k v color notify))" for req
  proof -
    from that query_sent_cases [of env "''message''" k v "''POST''" "Some ?P"]
    have s: "sent (query env ''message'' k v ''POST'' (Some ?P)) = [req]"
      by (auto simp: send_message_sent)
    then obtain k' av where "resolve env k v = Inr (k', av)"
      using query_sent_resolved by blast
    from query_sent_data [OF s this] show ?thesis
      by (auto simp: parameters_list dict_set_def)
  qed
  from fields eq body show ?thesis by simp
qed

text \<open>A sender name of 30 characters arrives as its first 15.\<close>

theorem send_message_truncates_witness:
  "sent (send_message (example_env None (answer 204 None)) (PInt 7) ''hello''
           ''abcdefghijklmnopqrstuvwxyz0123'' (PStr ''key'') (PStr ''v1'') (PStr ''yellow'') (PBool False))
     = [\<lparr>http_method = ''POST'', url = ''https://api.hipchat.com/v1/rooms/message'',
         headers = [(''Content-Type'', ''application/x-www-form-urlencoded'')],
         params = [(''format'', PStr ''json''), (''auth_token'', PStr ''key'')],
         data = FormFields [(''room_id'', PInt 7), (''from'', PStr ''abcdefghijklmno''),
                            (''message'', PStr ''hello''), (''message_format'', PStr ''text''),
                            (''color'', PStr ''yellow''), (''notify'', PInt 0)],
         verify = True\<rparr>] \<and>
   result (send_message (example_env None (answer 204 None)) (PInt 7) ''hello''
           ''abcdefghijklmnopqrstuvwxyz0123'' (PStr ''key'') (PStr ''v1'') (PStr ''yellow'') (PBool False))
     = Inr (PBool True) \<and>
   length ''abcdefghijklmnopqrstuvwxyz0123'' = 30"
  using send_message_truncates [of "PInt 7" "''hello''" "''abcdefghijklmnopqrstuvwxyz0123''"
          "PStr ''yellow''" "PBool False" "example_env None (answer 204 None)" "PStr ''key''" "PStr ''v1''"]
  by (simp add: run)

subsection \<open>The \<open>notify\<close> flag\<close>

text \<open>
  Claim C7. For every boolean \<open>notify\<close> passed to \<open>send_message\<close>, the request sent under
  v1 carries the form field \<open>notify\<close> as the integer 1 for \<open>True\<close> and 0 for \<open>False\<close>, and the
  request sent under v2 carries the JSON member \<open>notify\<close> as the boolean itself.
\<close>

theorem notify_serialisation:
  assumes "sent (send_message env room_id message from_name k v color (PBool notify)) = [req]"
    and "resolve env k v = Inr (k', PStr ver)"
  shows "(ver = ''v1'' \<longrightarrow>
            (\<exists>d. data req = FormFields d \<and>
                 map_of d ''notify'' = Some (PInt (if notify then 1 else 0)))) \<and>
         (ver = ''v2'' \<longrightarrow>
            (\<exists>j. data req = JsonText (JObject j) \<and> map_of j ''notify'' = Some (JBool notify)))"
proof -
  let ?P = "parameters room_id message from_name color (PBool notify)"
  from assms(1) have s: "sent (query env ''message'' k v ''POST'' (Some ?P)) = [req]"
    by (simp add: send_message_sent)
  from query_sent_data [OF s assms(2)] show ?thesis
    by (auto simp: parameters_list dict_set_def dict_get_def)
qed

text \<open>\<open>notify=True\<close> under v1 and under v2.\<close>

theorem notify_serialisation_witness:
  "sent (send_message (example_env None (answer 204 None)) (PInt 7) ''hello'' ''Build Server''
           (PStr ''key'') (PStr ''v1'') (PStr ''yellow'') (PBool True))
     = [\<lparr>http_method = ''POST'', url = ''https://api.hipchat.com/v1/rooms/message'',
         headers = [(''Content-Type'', ''application/x-www-form-urlencoded'')],
         params = [(''format'', PStr ''json''), (''auth_token'', PStr ''key'')],
         data = FormFields [(''room_id'', PInt 7), (''from'', PStr ''Build Server''),
                            (''message'', PStr ''hello''), (''message_format'', PStr ''text''),
                            (''color'', PStr ''yellow''), (''notify'', PInt 1)],
         verify = True\<rparr>] \<and>
   sent (send_message (example_env None (answer 204 None)) (PInt 7) ''hello'' ''Build Server''
           (PStr ''key'') (PStr ''v2'') (PStr ''yellow'') (PBool True))
     = [\<lparr>http_method = ''POST'', url = ''https://api.hipchat.com/v2/room/7/notification'',
         headers = [(''Authorization'', ''Bearer key'')], params = [],
         data = JsonText (JObject [(''room_id'', JNumber 7), (''from'', JString ''Build Server''),
                            (''message'', JString ''hello''), (''message_format'', JString ''text''),
                            (''color'', JString ''yellow''), (''notify'', JBool True)]),
         verify = True\<rparr>]"
proof -
  let ?E = "example_env None (answer 204 None)"
  let ?r1 = "\<lparr>http_method = ''POST'', url = ''https://api.hipchat.com/v1/rooms/message'',
         headers = [(''Content-Type'', ''application/x-www-form-urlencoded'')],
         params = [(''format'', PStr ''json''), (''auth_token'', PStr ''key'')],
         data = FormFields [(''room_id'', PInt 7), (''from'', PStr ''Build Server''),
                            (''message'', PStr ''hello''), (''message_format'', PStr ''text''),
                            (''color'', PStr ''yellow''), (''notify'', PInt 1)],
         verify = True\<rparr>"
  let ?r2 = "\<lparr>http_method = ''POST'', url = ''https://api.hipchat.com/v2/room/7/notification'',
         headers = [(''Authorization'', ''Bearer key'')], params = [],
         data = JsonText (JObject [(''room_id'', JNumber 7), (''from'', JString ''Build Server''),
                            (''message'', JString ''hello''), (''message_format'', JString ''text''),
                            (''color'', JString ''yellow''), (''notify'', JBool True)]),
         verify = True\<rparr>"
  have s1: "sent (send_message ?E (PInt 7) ''hello'' ''Build Server''
           (PStr ''key'') (PStr ''v1'') (PStr ''yellow'') (PBool True)) = [?r1]"
    by (simp add: run decimal.simps)
  have s2: "sent (send_message ?E (PInt 7) ''hello'' ''Build Server''
           (PStr ''key'') (PStr ''v2'') (PStr ''yellow'') (PBool True)) = [?r2]"
    by (simp add: run decimal.simps)
  have r1: "resolve ?E (PStr ''key'') (PStr ''v1'') = Inr (PStr ''key'', PStr ''v1'')"
    and r2: "resolve ?E (PStr ''key'') (PStr ''v2'') = Inr (PStr ''key'', PStr ''v2'')"
    by (simp_all add: resolve_def)
  show ?thesis
    using s1 s2 notify_serialisation [OF s1 r1] notify_serialisation [OF s2 r2] by simp
qed

subsection \<open>Lookup by name\<close>

text \<open>
  Claim C8. When the list operation returns a list of records that each have a \<open>name\<close>
  field, \<open>find_room\<close> and \<open>find_user\<close> return the first element, in the order returned,
  whose \<open>name\<close> is exactly the name asked for, and \<open>False\<close> when there is none.
\<close>

theorem find_returns_first_match:
  assumes "\<forall>r \<in> set rs. \<exists>d n. r = PDict d \<and> map_of d ''name'' = Some n"
  shows "(result (list_rooms env k v) = Inr (PList rs) \<longrightarrow>
            result (find_room env name k v) =
              (case find (\<lambda>r. py_subscript r ''name'' = Inr (PStr name)) rs of
                 Some r \<Rightarrow> Inr r
               | None \<Rightarrow> Inr (PBool False))) \<and>
         (result (list_users env k v) = Inr (PList rs) \<longrightarrow>
            result (find_user env name k v) =
              (case find (\<lambda>r. py_subscript r ''name'' = Inr (PStr name)) rs of
                 Some r \<Rightarrow> Inr r
               | None \<Rightarrow> Inr (PBool False)))"
  using find_in_list [OF _ assms] by (simp add: find_room_def find_user_def)

text \<open>
  Two rooms are called \<open>Dev\<close>: the first one is returned. No user is called \<open>dev\<close> in
  lower case: the result is \<open>False\<close>.
\<close>

theorem find_returns_first_match_witness:
  "result (find_room
     (example_env None (answer 200 (Some (PDict
        [(''rooms'', PList [PDict [(''name'', PStr ''Dev''), (''id'', PInt 1)],
                            PDict [(''name'', PStr ''Ops''), (''id'', PInt 2)],
                            PDict [(''name'', PStr ''Dev''), (''id'', PInt 3)]]),
         (''users'', PList [PDict [(''name'', PStr ''Dev''), (''id'', PInt 1)],
                            PDict [(''name'', PStr ''Ops''), (''id'', PInt 2)],
                            PDict [(''name'', PStr ''Dev''), (''id'', PInt 3)]])]))))
     ''Dev'' (PStr ''key'') (PStr ''v1''))
     = Inr (PDict [(''name'', PStr ''Dev''), (''id'', PInt 1)]) \<and>
   result (find_user
     (example_env None (answer 200 (Some (PDict
        [(''rooms'', PList [PDict [(''name'', PStr ''Dev''), (''id'', PInt 1)],
                            PDict [(''name'', PStr ''Ops''), (''id'', PInt 2)],
                            PDict [(''name'', PStr ''Dev''), (''id'', PInt 3)]]),
         (''users'', PList [PDict [(''name'', PStr ''Dev''), (''id'', PInt 1)],
                            PDict [(''name'', PStr ''Ops''), (''id'', PInt 2)],
                            PDict [(''name'', PStr ''Dev''), (''id'', PInt 3)]])]))))
     ''dev'' (PStr ''key'') (PStr ''v1''))
     = Inr (PBool False)"
proof -
  let ?rs = "[PDict [(''name'', PStr ''Dev''), (''id'', PInt 1)],
              PDict [(''name'', PStr ''Ops''), (''id'', PInt 2)],
              PDict [(''name'', PStr ''Dev''), (''id'', PInt 3)]]"
  let ?E = "example_env None (answer 200 (Some (PDict [(''rooms'', PList ?rs), (''users'', PList ?rs)])))"
  have wf: "\<forall>r \<in> set ?rs. \<exists>d n. r = PDict d \<and> map_of d ''name'' = Some n"
    by simp
  have rooms: "result (list_rooms ?E (PStr ''key'') (PStr ''v1'')) = Inr (PList ?rs)"
    and users: "result (list_users ?E (PStr ''key'') (PStr ''v1'')) = Inr (PList ?rs)"
    by (simp_all add: run)
  show ?thesis
    using rooms users
      find_returns_first_match [OF wf, of ?E "PStr ''key''" "PStr ''v1''" "''Dev''"]
      find_returns_first_match [OF wf, of ?E "PStr ''key''" "PStr ''v1''" "''dev''"]
    by simp
qed

subsection \<open>The default room id\<close>

text \<open>
  Claim C9. Whenever \<open>data.get('room_id')\<close> is falsy (the key absent, or \<open>None\<close>, \<open>False\<close>,
  0, an empty string or container), the room id is \<open>'0'\<close>, the path of the v2 message
  descriptor is \<open>room/0/notification\<close>, and a v2 message request goes to the URL that
  \<open>urljoin\<close> makes of that path.
\<close>

theorem falsy_room_id_path:
  assumes "\<not> truthy (dict_get d ''room_id'')"
  shows "room_id_of env d = ''0'' \<and>
         map_option request (lookup_descriptor (room_id_of env d) ''v2'' ''message'')
           = Some ''room/0/notification'' \<and>
         (resolve env k v = Inr (k', PStr ''v2'') \<and>
          url_join env api_url ''v2/'' True = Inr base \<and>
          url_join env base ''room/0/notification'' False = Inr u \<longrightarrow>
            map url (sent (query env ''message'' k v m (Some d))) = [u])"
proof -
  have r: "room_id_of env d = ''0''"
    using assms by (simp add: room_id_of_def)
  have l: "lookup_descriptor ''0'' ''v2'' ''message''
             = Some \<lparr>request = ''room/0/notification'', response = None\<rparr>"
    by (simp add: lookup_descriptor_def hipchat_functions_def)
  have q: "map url (sent (query env ''message'' k v m (Some d))) = [u]"
    if "resolve env k v = Inr (k', PStr ''v2'')"
      and "url_join env api_url ''v2/'' True = Inr base"
      and "url_join env base ''room/0/notification'' False = Inr u"
    using that r l
    by (simp add: query_def build_def Let_def split: sum.splits prod.splits)
  from r l q show ?thesis by simp
qed

text \<open>A room id of 0 and an empty room id.\<close>

theorem falsy_room_id_path_witness:
  "\<not> truthy (dict_get [(''room_id'', PStr []), (''message'', PStr ''hello'')] ''room_id'') \<and>
   \<not> truthy (dict_get [(''room_id'', PInt 0)] ''room_id'') \<and>
   map url (sent (query (example_env None (answer 204 None)) ''message'' (PStr ''key'') (PStr ''v2'')
                    ''POST'' (Some [(''room_id'', PInt 0)])))
     = [''https://api.hipchat.com/v2/room/0/notification''] \<and>
   room_id_of (example_env None (answer 204 None))
      [(''room_id'', PStr []), (''message'', PStr ''hello'')] = ''0''"
proof -
  let ?E = "example_env None (answer 204 None)"
  have h: "\<not> truthy (dict_get [(''room_id'', PInt 0)] ''room_id'')"
    and h': "\<not> truthy (dict_get [(''room_id'', PStr []), (''message'', PStr ''hello'')] ''room_id'')"
    by (simp_all add: dict_get_def)
  have a: "resolve ?E (PStr ''key'') (PStr ''v2'') = Inr (PStr ''key'', PStr ''v2'') \<and>
          url_join ?E api_url ''v2/'' True = Inr ''https://api.hipchat.com/v2/'' \<and>
          url_join ?E ''https://api.hipchat.com/v2/'' ''room/0/notification'' False
            = Inr ''https://api.hipchat.com/v2/room/0/notification''"
    by (simp add: resolve_def example_env_def example_join_def api_url_def)
  show ?thesis
    using h h' a
      falsy_room_id_path [OF h, of ?E "PStr ''key''" "PStr ''v2''" "PStr ''key''"
         "''https://api.hipchat.com/v2/''" "''https://api.hipchat.com/v2/room/0/notification''" "''POST''"]
      falsy_room_id_path [OF h', of ?E]
    by simp
qed

subsection \<open>The \<open>notify\<close> entry under v1\<close>

text \<open>
  Claim C10. Under v1, every request that \<open>_query\<close> sends carries the caller's data with
  the \<open>notify\<close> entry overwritten by 1 or 0, whatever the HTTP verb and whether or not the
  caller passed data; the caller's mapping holds the new entry after the call; and the GET
  requests of \<open>list_rooms\<close> and \<open>list_users\<close> carry \<open>notify = 0\<close> as their only field.
\<close>

theorem v1_writes_notify:
  assumes "resolve env k v = Inr (k', PStr ''v1'')"
  shows "(sent (query env f k v m da) = [req] \<longrightarrow>
            data req = FormFields (dict_set (case da of None \<Rightarrow> [] | Some d \<Rightarrow> d) ''notify''
                         (PInt (if truthy (dict_get (case da of None \<Rightarrow> [] | Some d \<Rightarrow> d) ''notify'')
                                then 1 else 0))) \<and>
            (\<exists>d n. data req = FormFields d \<and> map_of d ''notify'' = Some (PInt n) \<and> (n = 0 \<or> n = 1)) \<and>
            arg_data (query env f k v m da) =
              map_option (\<lambda>d. dict_set d ''notify''
                         (PInt (if truthy (dict_get d ''notify'') then 1 else 0))) da) \<and>
         (sent (list_rooms env k v) = [req] \<longrightarrow>
            http_method req = ''GET'' \<and> data req = FormFields [(''notify'', PInt 0)]) \<and>
         (sent (list_users env k v) = [req] \<longrightarrow>
            http_method req = ''GET'' \<and> data req = FormFields [(''notify'', PInt 0)])"
proof -
  have general: "data req = FormFields (dict_set (case da of None \<Rightarrow> [] | Some d \<Rightarrow> d) ''notify''
                         (PInt (if truthy (dict_get (case da of None \<Rightarrow> [] | Some d \<Rightarrow> d) ''notify'')
                                then 1 else 0))) \<and>
            arg_data (query env f k v m da) =
              map_option (\<lambda>d. dict_set d ''notify''
                         (PInt (if truthy (dict_get d ''notify'') then 1 else 0))) da"
    if "sent (query env f k v m da) = [req]" for f m da
    using query_sent_data [OF that assms] by simp
  have meth: "http_method req = m" if "sent (query env f k v m da) = [req]" for f m da
    using query_sent [OF that] build_Go by blast
  have lists: "http_method req = ''GET'' \<and> data req = FormFields [(''notify'', PInt 0)]"
    if "sent (query env f k v ''GET'' None) = [req]" for f
    using general [OF that] meth [OF that] by (simp add: dict_set_def dict_get_def)
  have carried: "\<exists>d n. data req = FormFields d \<and> map_of d ''notify'' = Some (PInt n) \<and> (n = 0 \<or> n = 1)"
    if "sent (query env f k v m da) = [req]"
    using general [OF that] by (auto simp: map_of_dict_set)
  from general carried lists show ?thesis
    by (simp add: list_rooms_def list_users_def)
qed

text \<open>
  A caller's mapping with \<open>notify = True\<close> comes back with \<open>notify = 1\<close>; the two list
  requests carry \<open>notify = 0\<close>.
\<close>

theorem v1_writes_notify_witness:
  "resolve (example_env None (answer 204 None)) (PStr ''key'') (PStr ''v1'')
     = Inr (PStr ''key'', PStr ''v1'') \<and>
   map data (sent (query (example_env None (answer 204 None)) ''message'' (PStr ''key'') (PStr ''v1'')
                     ''POST'' (Some [(''room_id'', PStr ''Dev''), (''notify'', PBool True)])))
     = [FormFields [(''room_id'', PStr ''Dev''), (''notify'', PInt 1)]] \<and>
   arg_data (query (example_env None (answer 204 None)) ''message'' (PStr ''key'') (PStr ''v1'')
               ''POST'' (Some [(''room_id'', PStr ''Dev''), (''notify'', PBool True)]))
     = Some [(''room_id'', PStr ''Dev''), (''notify'', PInt 1)] \<and>
   map data (sent (list_rooms (example_env None (answer 204 None)) (PStr ''key'') (PStr ''v1'')))
     = [FormFields [(''notify'', PInt 0)]] \<and>
   map data (sent (list_users (example_env None (answer 204 None)) (PStr ''key'') (PStr ''v1'')))
     = [FormFields [(''notify'', PInt 0)]]"
proof -
  let ?E = "example_env None (answer 204 None)"
  let ?m = "\<lparr>http_method = ''POST'', url = ''https://api.hipchat.com/v1/rooms/message'',
         headers = [(''Content-Type'', ''application/x-www-form-urlencoded'')],
         params = [(''format'', PStr ''json''), (''auth_token'', PStr ''key'')],
         data = FormFields [(''room_id'', PStr ''Dev''), (''notify'', PInt 1)],
         verify = True\<rparr>"
  let ?r = "\<lparr>http_method = ''GET'', url = ''https://api.hipchat.com/v1/rooms/list'',
         headers = [], params = [(''format'', PStr ''json''), (''auth_token'', PStr ''key'')],
         data = FormFields [(''notify'', PInt 0)], verify = True\<rparr>"
  let ?u = "\<lparr>http_method = ''GET'', url = ''https://api.hipchat.com/v1/users/list'',
         headers = [], params = [(''format'', PStr ''json''), (''auth_token'', PStr ''key'')],
         data = FormFields [(''notify'', PInt 0)], verify = True\<rparr>"
  have h: "resolve ?E (PStr ''key'') (PStr ''v1'') = Inr (PStr ''key'', PStr ''v1'')"
    by (simp add: resolve_def)
  have sm: "sent (query ?E ''message'' (PStr ''key'') (PStr ''v1'') ''POST''
                   (Some [(''room_id'', PStr ''Dev''), (''notify'', PBool True)])) = [?m]"
    and sr: "sent (list_rooms ?E (PStr ''key'') (PStr ''v1'')) = [?r]"
    and su: "sent (list_users ?E (PStr ''key'') (PStr ''v1'')) = [?u]"
    by (simp_all add: run)
  show ?thesis
    using h sm sr su
      v1_writes_notify [OF h, of "''message''" "''POST''"
         "Some [(''room_id'', PStr ''Dev''), (''notify'', PBool True)]" ?m]
      v1_writes_notify [OF h, of _ _ _ ?r]
      v1_writes_notify [OF h, of _ _ _ ?u]
    by (simp add: dict_set_def dict_get_def)
qed

end
